theory Spec2Isabelle
  imports Main "HOL-Library.AList"
begin

section \<open>JavaScript values, errors and diagnostics\<close>

text \<open>
  The values \<open>get\<close> can hand back: a string, a boolean, \<open>undefined\<close> (what a property
  read gives for a key found nowhere on the object's prototype chain), or the member of
  \<open>Object.prototype\<close> of a given name (a function, or for \<open>__proto__\<close> the prototype
  object itself), which a property read gives when the object has no own property of
  that name.
\<close>

datatype jsval = JString string | JBoolean bool | JUndefined | JInherited string

text \<open>
  \<open>Error msg\<close> is \<open>new Error(msg)\<close>. \<open>TypeError\<close> is what a property read on a nullish
  value throws; its message is engine specific and is not modelled.
\<close>

datatype js_error = Error string | TypeError

text \<open>What \<open>console.warn\<close> was called with: a message string or a caught error.\<close>

datatype warning = WarnMessage string | WarnError js_error

text \<open>The type \<open>boolean | 0\<close> of the field \<open>ignoreErrors\<close>.\<close>

datatype ignore_errors = IgnoreBool bool | IgnoreZero

text \<open>
  \<open>process.env\<close>: its own properties, string keys with string values, in the order
  \<open>Object.keys\<close> lists them.
\<close>

type_synonym environ = "(string \<times> string) list"

text \<open>
  A \<open>Record<..., string>\<close> argument as JavaScript receives it: \<open>None\<close> is a nullish
  argument, \<open>Some tbl\<close> a plain object with the own properties \<open>tbl\<close>.
\<close>

type_synonym js_record = "(string \<times> string) list option"

text \<open>
  The outcome of a call: the thrown error (\<open>Inl\<close>) or the returned value (\<open>Inr\<close>),
  together with the warnings the call wrote to the console, oldest first.
\<close>

type_synonym 'a outcome = "(js_error + 'a) \<times> warning list"

fun truthy :: "jsval \<Rightarrow> bool" where
  "truthy (JString s) = (s \<noteq> [])"
| "truthy (JBoolean b) = b"
| "truthy JUndefined = False"
| "truthy (JInherited m) = True"

text \<open>
  The names of the properties of \<open>Object.prototype\<close>, from which both \<open>process.env\<close> and
  an object literal inherit.
\<close>

definition Object_prototype :: "string list" where
  "Object_prototype =
     [''constructor'', ''__defineGetter__'', ''__defineSetter__'', ''hasOwnProperty'',
      ''__lookupGetter__'', ''__lookupSetter__'', ''isPrototypeOf'', ''propertyIsEnumerable'',
      ''toString'', ''valueOf'', ''__proto__'', ''toLocaleString'']"

text \<open>
  The property read \<open>obj[key]\<close>: an own property wins; otherwise the read goes up the
  prototype chain and finds the member of \<open>Object.prototype\<close> of that name, if any.
\<close>

definition prop_read :: "(string \<times> string) list \<Rightarrow> string \<Rightarrow> jsval" where
  "prop_read obj key =
     (case map_of obj key of
        Some s \<Rightarrow> JString s
      | None \<Rightarrow> if key \<in> set Object_prototype then JInherited key else JUndefined)"

definition Object_keys :: "environ \<Rightarrow> string list" where
  "Object_keys obj = map fst obj"

text \<open>\<open>Array.prototype.join\<close> with an explicit separator.\<close>

fun array_join :: "string list \<Rightarrow> string \<Rightarrow> string" where
  "array_join [] sep = []"
| "array_join [x] sep = x"
| "array_join (x # y # ys) sep = x @ sep @ array_join (y # ys) sep"

text \<open>
  \<open>Array.from(new Set(xs))\<close>: a \<open>Set\<close> keeps its elements in insertion order and ignores
  an element it already holds.
\<close>

definition Set_add :: "string list \<Rightarrow> string \<Rightarrow> string list" where
  "Set_add s x = (if x \<in> set s then s else s @ [x])"

definition Array_from_Set :: "string list \<Rightarrow> string list" where
  "Array_from_Set xs = foldl Set_add [] xs"

section \<open>The class Env\<close>

text \<open>
  The fields of an \<open>Env\<close> object. The field \<open>env\<close> of the source is a reference to the
  one \<open>process.env\<close> object, not a copy: every function that reads \<open>this.env\<close> takes the
  current content of \<open>process.env\<close> as an argument instead.
\<close>

record Env =
  keys :: "string list"
  required_keys :: "string list"
  default_env :: js_record
  ignoreErrors :: ignore_errors

definition missing_message :: "string list \<Rightarrow> string" where
  "missing_message ks =
     ''keys in your .env are not defined. Define next keys:'' @ [CHR 0x0A] @ array_join ks '', ''"

text \<open>
  The loop of \<open>init\<close> over \<open>required_keys\<close>. The array \<open>keys\<close> of the source is declared
  inside the loop body, so it is empty at the start of every round.
\<close>

fun init_loop :: "Env \<Rightarrow> string list \<Rightarrow> warning list \<Rightarrow> unit outcome" where
  "init_loop this [] log = (Inr (), log)"
| "init_loop this (key # rest) log =
     (let keys0 = [];
          keys1 = (if key \<notin> set (keys this) then keys0 @ [key] else keys0)
      in if length keys1 \<noteq> 0 then
           (if ignoreErrors this = IgnoreBool False then
              (Inl (Error (missing_message keys1)), log)
            else if ignoreErrors this = IgnoreBool True then
              init_loop this rest (log @ [WarnMessage (missing_message keys1)])
            else init_loop this rest log)
         else init_loop this rest log)"

definition init :: "Env \<Rightarrow> unit outcome" where
  "init this = init_loop this (required_keys this) []"

text \<open>
  \<open>new Env(keys, required_keys, default_env, ignoreErrors)\<close>, run while \<open>process.env\<close>
  holds \<open>penv\<close>. A constructor that throws yields no object.
\<close>

definition Env_new ::
  "string list \<Rightarrow> string list \<Rightarrow> js_record \<Rightarrow> ignore_errors \<Rightarrow> environ \<Rightarrow> Env outcome" where
  "Env_new ks required dflt ig penv =
     (let this = \<lparr>keys = Array_from_Set (Object_keys penv @ ks),
                  required_keys = required,
                  default_env = dflt,
                  ignoreErrors = ig\<rparr>
      in case init this of
           (Inl err, log) \<Rightarrow> (Inl err, log)
         | (Inr u, log) \<Rightarrow> (Inr this, log))"

text \<open>
  The body of the \<open>try\<close> block of \<open>get\<close>. The argument \<open>defaultIncludes\<close> is optional:
  \<open>None\<close> is a call that omits it, and the parameter's default value is \<open>false\<close>.
  Reading a property of a nullish \<open>default_env\<close> throws.
\<close>

definition resolve :: "Env \<Rightarrow> environ \<Rightarrow> string \<Rightarrow> bool option \<Rightarrow> js_error + jsval" where
  "resolve this penv key arg =
     (let defaultIncludes = (case arg of None \<Rightarrow> False | Some b \<Rightarrow> b);
          live = prop_read penv key
      in if truthy live then Inr live
         else if defaultIncludes = True then
           (case default_env this of
              None \<Rightarrow> Inl TypeError
            | Some tbl \<Rightarrow> Inr (prop_read tbl key))
         else Inr (JBoolean False))"

text \<open>\<open>get\<close>: the \<open>try\<close> block and its \<open>catch\<close> handler.\<close>

definition get :: "Env \<Rightarrow> environ \<Rightarrow> string \<Rightarrow> bool option \<Rightarrow> jsval outcome" where
  "get this penv key arg =
     (case resolve this penv key arg of
        Inr v \<Rightarrow> (Inr v, [])
      | Inl error \<Rightarrow>
          (if ignoreErrors this = IgnoreBool False then (Inl error, [])
           else if ignoreErrors this = IgnoreBool True then (Inr (JBoolean False), [WarnError error])
           else (Inr (JBoolean False), [])))"

section \<open>CreateEnv and EnvUtility\<close>

text \<open>
  The imported functions, taken as parameters: \<open>join\<close> and \<open>normalize\<close> of \<open>path\<close>, and
  \<open>config\<close> of \<open>dotenv\<close>, which may change \<open>process.env\<close> and may throw.
\<close>

record node_api =
  path_join :: "string \<Rightarrow> string"
  path_normalize :: "string \<Rightarrow> string"
  dotenv_config :: "string \<Rightarrow> environ \<Rightarrow> js_error option \<times> environ"

record CreateEnv_args =
  arg_keys :: "string list"
  requiredKeys :: "string list"
  pathToEnv :: string
  defaultEnv :: js_record
  arg_ignoreErrors :: ignore_errors

text \<open>The outcome of \<open>CreateEnv\<close>, and \<open>process.env\<close> after the call.\<close>

definition CreateEnv :: "node_api \<Rightarrow> CreateEnv_args \<Rightarrow> environ \<Rightarrow> Env outcome \<times> environ" where
  "CreateEnv api args penv =
     (case dotenv_config api (path_normalize api (path_join api (pathToEnv args))) penv of
        (Some err, penv') \<Rightarrow> ((Inl err, []), penv')
      | (None, penv') \<Rightarrow>
          (Env_new (arg_keys args) (requiredKeys args) (defaultEnv args)
             (arg_ignoreErrors args) penv', penv'))"

record EnvUtility =
  env :: Env

definition EnvUtility_new ::
  "node_api \<Rightarrow> CreateEnv_args \<Rightarrow> environ \<Rightarrow> EnvUtility outcome \<times> environ" where
  "EnvUtility_new api args penv =
     (case CreateEnv api args penv of
        ((Inl err, log), penv') \<Rightarrow> ((Inl err, log), penv')
      | ((Inr e, log), penv') \<Rightarrow> ((Inr \<lparr>env = e\<rparr>, log), penv'))"

section \<open>A registry in a changing process environment\<close>

text \<open>
  The program state a registry lives in: the object, the current \<open>process.env\<close>, and
  what has been written to the console so far. Code outside the registry may set or
  delete environment variables at any time.
\<close>

record world =
  registry :: Env
  process_env :: environ
  console :: "warning list"

datatype event = Lookup string "bool option" | SetVar string string | DeleteVar string

definition console_warn :: "warning \<Rightarrow> world \<Rightarrow> world" where
  "console_warn x w = w\<lparr>console := console w @ [x]\<rparr>"

text \<open>
  \<open>get\<close> as a step of the program state: the thrown error or returned value, and the
  state after the call. The expression of the \<open>try\<close> block only reads properties of
  \<open>this.env\<close> and \<open>this.default_env\<close>; the one statement of \<open>get\<close> with an effect is the
  \<open>console.warn\<close> of the \<open>catch\<close> block.
\<close>

definition get_call :: "world \<Rightarrow> string \<Rightarrow> bool option \<Rightarrow> (js_error + jsval) \<times> world" where
  "get_call w key arg =
     (case resolve (registry w) (process_env w) key arg of
        Inr v \<Rightarrow> (Inr v, w)
      | Inl error \<Rightarrow>
          (if ignoreErrors (registry w) = IgnoreBool False then (Inl error, w)
           else if ignoreErrors (registry w) = IgnoreBool True then
             (Inr (JBoolean False), console_warn (WarnError error) w)
           else (Inr (JBoolean False), w)))"

fun step :: "world \<Rightarrow> event \<Rightarrow> world" where
  "step w (Lookup key arg) = snd (get_call w key arg)"
| "step w (SetVar k v) = w\<lparr>process_env := AList.update k v (process_env w)\<rparr>"
| "step w (DeleteVar k) = w\<lparr>process_env := AList.delete k (process_env w)\<rparr>"

definition run :: "world \<Rightarrow> event list \<Rightarrow> world" where
  "run w evs = foldl step w evs"

text \<open>The environment variables an event writes.\<close>

fun writes :: "event \<Rightarrow> string list" where
  "writes (Lookup key arg) = []"
| "writes (SetVar k v) = [k]"
| "writes (DeleteVar k) = [k]"

section \<open>The scenario of the documentation\<close>

definition example_imports :: node_api where
  "example_imports = \<lparr>path_join = (\<lambda>p. p), path_normalize = (\<lambda>p. p),
                       dotenv_config = (\<lambda>p penv. (None, penv))\<rparr>"

definition example_args :: CreateEnv_args where
  "example_args = \<lparr>arg_keys = [''PORT'', ''CLIENT_URL'', ''COOKIE_AGE''],
                    requiredKeys = [''CLIENT_URL''],
                    pathToEnv = ''./.env'',
                    defaultEnv = Some [(''PORT'', ''3000''), (''COOKIE_AGE'', ''604800'')],
                    arg_ignoreErrors = IgnoreBool False\<rparr>"

definition example_penv :: environ where
  "example_penv = [(''CLIENT_URL'', ''https://x.test'')]"

definition example_Env :: Env where
  "example_Env = \<lparr>keys = [''CLIENT_URL'', ''PORT'', ''COOKIE_AGE''],
                   required_keys = [''CLIENT_URL''],
                   default_env = Some [(''PORT'', ''3000''), (''COOKIE_AGE'', ''604800'')],
                   ignoreErrors = IgnoreBool False\<rparr>"

text \<open>A registry whose defaults argument was nullish, under a given error policy.\<close>

definition nullish_Env :: "ignore_errors \<Rightarrow> Env" where
  "nullish_Env ig = \<lparr>keys = [''CLIENT_URL'', ''PORT''], required_keys = [],
                      default_env = None, ignoreErrors = ig\<rparr>"

text \<open>A registry with a default registered under the name \<open>toString\<close>.\<close>

definition toString_Env :: Env where
  "toString_Env = \<lparr>keys = [''CLIENT_URL'', ''toString''], required_keys = [],
                    default_env = Some [(''toString'', ''x'')], ignoreErrors = IgnoreBool False\<rparr>"

section \<open>Auxiliary facts\<close>

lemma set_foldl_Set_add: "set (foldl Set_add acc xs) = set acc \<union> set xs"
  by (induction xs arbitrary: acc) (auto simp: Set_add_def)

lemma distinct_foldl_Set_add: "distinct acc \<Longrightarrow> distinct (foldl Set_add acc xs)"
  by (induction xs arbitrary: acc) (auto simp: Set_add_def)

lemma set_Array_from_Set: "set (Array_from_Set xs) = set xs"
  by (simp add: Array_from_Set_def set_foldl_Set_add)

lemma distinct_Array_from_Set: "distinct (Array_from_Set xs)"
  by (simp add: Array_from_Set_def distinct_foldl_Set_add)

lemma init_loop_all_known:
  "set req \<subseteq> set (keys this) \<Longrightarrow> init_loop this req log = (Inr (), log)"
  by (induction req arbitrary: log) auto

lemma Env_new_keys:
  "Env_new ks req d ig penv = (Inr r, log) \<Longrightarrow> keys r = Array_from_Set (Object_keys penv @ ks)"
  by (auto simp: Env_new_def Let_def split: prod.splits sum.splits)

lemma get_call_registry: "registry (snd (get_call w key arg)) = registry w"
  by (simp add: get_call_def console_warn_def split: sum.splits)

lemma get_call_process_env: "process_env (snd (get_call w key arg)) = process_env w"
  by (simp add: get_call_def console_warn_def split: sum.splits)

lemma get_call_get:
  "fst (get_call w key arg) = fst (get (registry w) (process_env w) key arg)
   \<and> console (snd (get_call w key arg))
       = console w @ snd (get (registry w) (process_env w) key arg)"
  by (simp add: get_call_def get_def console_warn_def split: sum.splits)

lemma step_registry: "registry (step w ev) = registry w"
  by (cases ev) (simp_all add: get_call_registry)

lemma foldl_step_registry: "registry (foldl step w evs) = registry w"
  by (induction evs arbitrary: w) (simp_all add: step_registry)

lemma step_map_of:
  "key \<notin> set (writes ev) \<Longrightarrow> map_of (process_env (step w ev)) key = map_of (process_env w) key"
  by (cases ev) (simp_all add: get_call_process_env update_conv' delete_conv')

lemma foldl_step_map_of:
  "key \<notin> set (concat (map writes evs)) \<Longrightarrow>
     map_of (process_env (foldl step w evs)) key = map_of (process_env w) key"
  by (induction evs arbitrary: w) (simp_all add: step_map_of)

lemma resolve_cong_key:
  "map_of penv key = map_of penv' key \<Longrightarrow> resolve obj penv key arg = resolve obj penv' key arg"
  by (simp add: resolve_def prop_read_def)

lemma get_call_result_cong:
  assumes "registry w' = registry w"
    and "map_of (process_env w') key = map_of (process_env w) key"
  shows "fst (get_call w' key arg) = fst (get_call w key arg)"
proof -
  have "resolve (registry w) (process_env w') key arg = resolve (registry w) (process_env w) key arg"
    using assms(2) by (rule resolve_cong_key)
  then show ?thesis
    using assms(1) by (simp add: get_call_def split: sum.splits)
qed

lemma example_Array_from_Set:
  "Array_from_Set [''CLIENT_URL'', ''PORT'', ''CLIENT_URL'', ''COOKIE_AGE'']
     = [''CLIENT_URL'', ''PORT'', ''COOKIE_AGE'']"
  by (simp add: Array_from_Set_def Set_add_def)

lemma example_Env_new:
  "Env_new [''PORT'', ''CLIENT_URL'', ''COOKIE_AGE''] [''CLIENT_URL'']
     (Some [(''PORT'', ''3000''), (''COOKIE_AGE'', ''604800'')]) (IgnoreBool False) example_penv
   = (Inr example_Env, [])"
  by (simp add: Env_new_def example_penv_def example_Env_def Object_keys_def init_def
      Array_from_Set_def Set_add_def)

lemma resolve_fails_iff:
  "resolve obj penv key arg = Inl err \<longleftrightarrow>
     (\<not> truthy (prop_read penv key) \<and> arg = Some True \<and> default_env obj = None \<and> err = TypeError)"
  by (auto simp: resolve_def Let_def split: option.splits)

section \<open>Construction: required keys\<close>

text \<open>
  C1. With two required keys missing, the constructor does not gather them into one
  list: the list is emptied at every round of the loop, so when \<open>ignoreErrors\<close> is
  \<open>false\<close> the error names the first missing key only, and when it is \<open>true\<close> there is
  one warning for each missing key, each naming that key alone. The message for the
  first key differs from the message that would enumerate both.
\<close>

theorem init_reports_each_missing_key_alone:
  "Env_new [] [''A'', ''B''] (Some []) (IgnoreBool False) [(''PATH'', ''/usr/bin'')]
     = (Inl (Error (missing_message [''A''])), [])
   \<and> Env_new [] [''A'', ''B''] (Some []) (IgnoreBool True) [(''PATH'', ''/usr/bin'')]
     = (Inr \<lparr>keys = [''PATH''], required_keys = [''A'', ''B''], default_env = Some [],
              ignoreErrors = IgnoreBool True\<rparr>,
        [WarnMessage (missing_message [''A'']), WarnMessage (missing_message [''B''])])
   \<and> missing_message [''A''] \<noteq> missing_message [''A'', ''B'']"
  by (simp add: Env_new_def init_def Object_keys_def Array_from_Set_def Set_add_def
      missing_message_def)

text \<open>
  C4. If every required key is a key of the process environment at construction time or
  one of the declared keys, then construction returns the object, whatever the value of
  \<open>ignoreErrors\<close>, and writes no warning.
\<close>

theorem Env_new_all_required_known:
  assumes "set required \<subseteq> fst ` set penv \<union> set ks"
  shows "Env_new ks required dflt ig penv =
           (Inr \<lparr>keys = Array_from_Set (Object_keys penv @ ks), required_keys = required,
                  default_env = dflt, ignoreErrors = ig\<rparr>, [])"
proof -
  let ?obj = "\<lparr>keys = Array_from_Set (Object_keys penv @ ks), required_keys = required,
                default_env = dflt, ignoreErrors = ig\<rparr>"
  from assms have "set (required_keys ?obj) \<subseteq> set (keys ?obj)"
    by (simp add: set_Array_from_Set Object_keys_def)
  then have "init ?obj = (Inr (), [])"
    unfolding init_def by (rule init_loop_all_known)
  then show ?thesis
    by (simp add: Env_new_def)
qed

theorem Env_new_all_required_known_witness:
  "set [''CLIENT_URL'', ''PORT''] \<subseteq> fst ` set example_penv \<union> set [''PORT'']
   \<and> Env_new [''PORT''] [''CLIENT_URL'', ''PORT''] None IgnoreZero example_penv =
       (Inr \<lparr>keys = [''CLIENT_URL'', ''PORT''], required_keys = [''CLIENT_URL'', ''PORT''],
              default_env = None, ignoreErrors = IgnoreZero\<rparr>, [])"
  using Env_new_all_required_known
          [of "[''CLIENT_URL'', ''PORT'']" example_penv "[''PORT'']" None IgnoreZero]
  by (simp add: example_penv_def Object_keys_def Array_from_Set_def Set_add_def)

text \<open>
  C8. The known keys of a constructed registry are, as a set, the keys of the process
  environment at construction time together with the declared keys, and no key is
  listed twice. Whatever lookups and changes of the process environment follow, the
  registry's known keys stay the list computed at construction.
\<close>

theorem known_keys_union:
  assumes "Env_new ks req d ig penv = (Inr r, log)"
  shows "set (keys r) = fst ` set penv \<union> set ks
         \<and> distinct (keys r)
         \<and> (\<forall>evs c. keys (registry (run \<lparr>registry = r, process_env = penv, console = c\<rparr> evs))
                      = keys r)"
proof -
  from assms have k: "keys r = Array_from_Set (Object_keys penv @ ks)"
    by (rule Env_new_keys)
  have "set (keys r) = fst ` set penv \<union> set ks"
    by (simp add: k set_Array_from_Set Object_keys_def)
  moreover have "distinct (keys r)"
    by (simp add: k distinct_Array_from_Set)
  moreover have "keys (registry (run \<lparr>registry = r, process_env = penv, console = c\<rparr> evs)) = keys r"
    for evs c
    by (simp add: run_def foldl_step_registry)
  ultimately show ?thesis by blast
qed

theorem known_keys_union_witness:
  "Env_new [''PORT'', ''CLIENT_URL'', ''COOKIE_AGE''] [''CLIENT_URL'']
     (Some [(''PORT'', ''3000''), (''COOKIE_AGE'', ''604800'')]) (IgnoreBool False) example_penv
     = (Inr example_Env, [])
   \<and> set (keys example_Env) = fst ` set example_penv \<union> set [''PORT'', ''CLIENT_URL'', ''COOKIE_AGE'']
   \<and> distinct (keys example_Env)
   \<and> keys (registry (run \<lparr>registry = example_Env, process_env = example_penv, console = []\<rparr>
        [SetVar ''HOST'' ''localhost'', Lookup ''HOST'' None, DeleteVar ''CLIENT_URL'']))
       = [''CLIENT_URL'', ''PORT'', ''COOKIE_AGE'']"
proof -
  have k: "keys example_Env = [''CLIENT_URL'', ''PORT'', ''COOKIE_AGE'']"
    by (simp add: example_Env_def)
  from known_keys_union [OF example_Env_new] example_Env_new show ?thesis
    by (simp add: k)
qed

section \<open>Lookup\<close>

text \<open>
  C2. The registry held by an \<open>EnvUtility\<close> object is declared with the
  default-inclusion type argument \<open>true\<close>, so by the declared type of \<open>get\<close> a call that
  omits the flag stands for the call that passes \<open>true\<close>. At run time it does not:
  \<open>PORT\<close> has no live value and the default \<open>3000\<close>; the call of \<open>get\<close> that omits the flag
  returns \<open>false\<close>, while the call that passes \<open>true\<close> returns the default.
\<close>

theorem get_omitted_flag_ignores_instance_mode:
  "EnvUtility_new example_imports example_args example_penv
     = ((Inr \<lparr>env = example_Env\<rparr>, []), example_penv)
   \<and> get example_Env example_penv ''PORT'' None = (Inr (JBoolean False), [])
   \<and> get example_Env example_penv ''PORT'' (Some True) = (Inr (JString ''3000''), [])"
proof -
  have "EnvUtility_new example_imports example_args example_penv
          = ((Inr \<lparr>env = example_Env\<rparr>, []), example_penv)"
    by (simp add: EnvUtility_new_def CreateEnv_def example_imports_def example_args_def
        example_Env_new)
  moreover have "get example_Env example_penv ''PORT'' None = (Inr (JBoolean False), [])"
    by (simp add: get_def resolve_def prop_read_def Object_prototype_def example_penv_def
        example_Env_def)
  moreover have "get example_Env example_penv ''PORT'' (Some True) = (Inr (JString ''3000''), [])"
    by (simp add: get_def resolve_def prop_read_def Object_prototype_def example_penv_def
        example_Env_def)
  ultimately show ?thesis by simp
qed

text \<open>
  C3. For a key with no live value and no entry in the defaults table, \<open>get\<close> with the
  flag \<open>true\<close> returns \<open>undefined\<close>, which is neither a string nor \<open>false\<close>.
\<close>

theorem get_returns_undefined_without_default:
  "get \<lparr>keys = [''PATH'', ''PORT''], required_keys = [], default_env = Some [],
        ignoreErrors = IgnoreBool False\<rparr> [(''PATH'', ''/usr/bin'')] ''PORT'' (Some True)
     = (Inr JUndefined, [])"
  by (simp add: get_def resolve_def prop_read_def Object_prototype_def)

text \<open>
  C5. The name \<open>toString\<close> is no environment variable, so its live value is absent, and
  a default is registered for it. Yet \<open>get\<close> returns, for the flag \<open>true\<close>, \<open>false\<close> or
  omitted alike, the function that \<open>process.env\<close> inherits under that name: neither the
  registered default nor \<open>false\<close>.
\<close>

theorem get_returns_inherited_member:
  "map_of example_penv ''toString'' = None
   \<and> default_env toString_Env = Some [(''toString'', ''x'')]
   \<and> get toString_Env example_penv ''toString'' (Some True) = (Inr (JInherited ''toString''), [])
   \<and> get toString_Env example_penv ''toString'' (Some False) = (Inr (JInherited ''toString''), [])
   \<and> get toString_Env example_penv ''toString'' None = (Inr (JInherited ''toString''), [])"
  by (simp add: get_def resolve_def prop_read_def Object_prototype_def example_penv_def
      toString_Env_def)

text \<open>
  For a key that names no member of \<open>Object.prototype\<close> and whose live value is absent
  or the empty string: with the flag \<open>true\<close> and a default registered for the key, \<open>get\<close>
  returns that default; with the flag \<open>false\<close>, or omitted, \<open>get\<close> returns \<open>false\<close>.
\<close>

lemma get_fallback_plain_key:
  assumes "key \<notin> set Object_prototype"
    and "map_of penv key = None \<or> map_of penv key = Some []"
  shows "(\<forall>tbl d. default_env obj = Some tbl \<and> map_of tbl key = Some d \<longrightarrow>
            get obj penv key (Some True) = (Inr (JString d), []))
         \<and> get obj penv key (Some False) = (Inr (JBoolean False), [])
         \<and> get obj penv key None = (Inr (JBoolean False), [])"
  using assms by (auto simp: get_def resolve_def prop_read_def)

text \<open>
  C6. For a key whose live value is a non-empty string, \<open>get\<close> returns exactly that
  string, whatever the flag (given or omitted) and whatever the registry, its
  \<open>ignoreErrors\<close> included; no warning is written.
\<close>

theorem get_live_value:
  assumes "map_of penv key = Some v" and "v \<noteq> []"
  shows "get obj penv key arg = (Inr (JString v), [])"
  using assms by (simp add: get_def resolve_def prop_read_def)

theorem get_live_value_witness:
  "map_of example_penv ''CLIENT_URL'' = Some ''https://x.test'' \<and> ''https://x.test'' \<noteq> []
   \<and> get example_Env example_penv ''CLIENT_URL'' None = (Inr (JString ''https://x.test''), [])"
proof -
  have h: "map_of example_penv ''CLIENT_URL'' = Some ''https://x.test''"
    by (simp add: example_penv_def)
  have n: "''https://x.test'' \<noteq> []" by simp
  from get_live_value [OF h n, of example_Env None] h n show ?thesis by simp
qed

text \<open>
  C7. When resolving the value throws an error: with \<open>ignoreErrors\<close> \<open>false\<close>, \<open>get\<close>
  throws that error; with \<open>true\<close>, it warns with the error and returns \<open>false\<close>; with \<open>0\<close>,
  it returns \<open>false\<close> and writes nothing. And whenever \<open>ignoreErrors\<close> is not \<open>false\<close>,
  \<open>get\<close> returns a value, whether resolving throws or not.
\<close>

theorem get_catch_policy:
  "(\<forall>err. resolve obj penv key arg = Inl err \<longrightarrow>
      (ignoreErrors obj = IgnoreBool False \<longrightarrow> get obj penv key arg = (Inl err, []))
    \<and> (ignoreErrors obj = IgnoreBool True \<longrightarrow>
          get obj penv key arg = (Inr (JBoolean False), [WarnError err]))
    \<and> (ignoreErrors obj = IgnoreZero \<longrightarrow> get obj penv key arg = (Inr (JBoolean False), [])))
   \<and> (ignoreErrors obj \<noteq> IgnoreBool False \<longrightarrow>
        (\<exists>v log. get obj penv key arg = (Inr v, log)))"
proof -
  have "ignoreErrors obj \<noteq> IgnoreBool False \<Longrightarrow> \<exists>v log. get obj penv key arg = (Inr v, log)"
    by (cases "resolve obj penv key arg") (simp_all add: get_def)
  moreover have "\<And>err. resolve obj penv key arg = Inl err \<Longrightarrow>
      (ignoreErrors obj = IgnoreBool False \<longrightarrow> get obj penv key arg = (Inl err, []))
    \<and> (ignoreErrors obj = IgnoreBool True \<longrightarrow>
          get obj penv key arg = (Inr (JBoolean False), [WarnError err]))
    \<and> (ignoreErrors obj = IgnoreZero \<longrightarrow> get obj penv key arg = (Inr (JBoolean False), []))"
    by (simp add: get_def)
  ultimately show ?thesis by blast
qed

theorem get_catch_policy_witness:
  "resolve (nullish_Env (IgnoreBool False)) example_penv ''PORT'' (Some True) = Inl TypeError
   \<and> get (nullish_Env (IgnoreBool False)) example_penv ''PORT'' (Some True) = (Inl TypeError, [])
   \<and> resolve (nullish_Env (IgnoreBool True)) example_penv ''PORT'' (Some True) = Inl TypeError
   \<and> get (nullish_Env (IgnoreBool True)) example_penv ''PORT'' (Some True)
       = (Inr (JBoolean False), [WarnError TypeError])
   \<and> resolve (nullish_Env IgnoreZero) example_penv ''PORT'' (Some True) = Inl TypeError
   \<and> get (nullish_Env IgnoreZero) example_penv ''PORT'' (Some True) = (Inr (JBoolean False), [])"
proof -
  have r: "resolve (nullish_Env ig) example_penv ''PORT'' (Some True) = Inl TypeError" for ig
    by (simp add: resolve_fails_iff nullish_Env_def example_penv_def prop_read_def
        Object_prototype_def)
  have p: "ignoreErrors (nullish_Env ig) = ig" for ig
    by (simp add: nullish_Env_def)
  from get_catch_policy [of "nullish_Env (IgnoreBool False)" example_penv "''PORT''" "Some True"]
       get_catch_policy [of "nullish_Env (IgnoreBool True)" example_penv "''PORT''" "Some True"]
       get_catch_policy [of "nullish_Env IgnoreZero" example_penv "''PORT''" "Some True"]
  show ?thesis by (simp add: r p)
qed

text \<open>
  C10. A call of \<open>get\<close> leaves the registry and the process environment as they were
  and adds to the console exactly the warnings of that call. After any number of calls
  with the same key and flag, the next call returns or throws the same as the first and
  writes the same warnings. The same holds after any lookups and any changes of other
  environment variables: what \<open>get\<close> returns for a key depends on the state only through
  the registry and the current value of that key.
\<close>

theorem get_call_idempotent:
  "registry (snd (get_call w key arg)) = registry w
   \<and> process_env (snd (get_call w key arg)) = process_env w
   \<and> console (snd (get_call w key arg)) = console w @ snd (get (registry w) (process_env w) key arg)
   \<and> fst (get_call (run w (replicate n (Lookup key arg))) key arg) = fst (get_call w key arg)
   \<and> console (snd (get_call (run w (replicate n (Lookup key arg))) key arg))
       = console (run w (replicate n (Lookup key arg)))
           @ snd (get (registry w) (process_env w) key arg)
   \<and> (key \<notin> set (concat (map writes evs)) \<longrightarrow>
        fst (get_call (run w evs) key arg) = fst (get_call w key arg))"
proof -
  let ?rep = "replicate n (Lookup key arg)"
  have frame: "fst (get_call (run w es) key arg) = fst (get_call w key arg)"
    if "key \<notin> set (concat (map writes es))" for es
    unfolding run_def
    by (rule get_call_result_cong)
       (simp_all add: foldl_step_registry foldl_step_map_of [OF that])
  have no_writes: "concat (map writes ?rep) = []"
    by (induction n) simp_all
  have same: "fst (get_call (run w ?rep) key arg) = fst (get_call w key arg)"
    by (rule frame) (simp add: no_writes)
  have env_rep: "process_env (foldl step w' (replicate m (Lookup key arg))) = process_env w'"
    for w' m
    by (induction m arbitrary: w') (simp_all add: get_call_process_env)
  have "console (snd (get_call (run w ?rep) key arg))
          = console (run w ?rep) @ snd (get (registry (run w ?rep)) (process_env (run w ?rep)) key arg)"
    by (simp add: get_call_get)
  then have warns: "console (snd (get_call (run w ?rep) key arg))
          = console (run w ?rep) @ snd (get (registry w) (process_env w) key arg)"
    by (simp add: run_def foldl_step_registry env_rep)
  show ?thesis
  proof (intro conjI impI)
    show "registry (snd (get_call w key arg)) = registry w"
      by (rule get_call_registry)
    show "process_env (snd (get_call w key arg)) = process_env w"
      by (rule get_call_process_env)
    show "console (snd (get_call w key arg))
            = console w @ snd (get (registry w) (process_env w) key arg)"
      by (rule get_call_get [THEN conjunct2])
    show "fst (get_call (run w ?rep) key arg) = fst (get_call w key arg)"
      by (rule same)
    show "console (snd (get_call (run w ?rep) key arg))
            = console (run w ?rep) @ snd (get (registry w) (process_env w) key arg)"
      by (rule warns)
    show "fst (get_call (run w evs) key arg) = fst (get_call w key arg)"
      if "key \<notin> set (concat (map writes evs))"
      using that by (rule frame)
  qed
qed

theorem get_call_idempotent_witness:
  "''PORT'' \<notin> set (concat (map writes
      [Lookup ''PORT'' (Some True), SetVar ''HOST'' ''localhost'', DeleteVar ''CLIENT_URL'']))
   \<and> fst (get_call \<lparr>registry = nullish_Env (IgnoreBool True), process_env = example_penv,
                     console = []\<rparr> ''PORT'' (Some True)) = Inr (JBoolean False)
   \<and> fst (get_call
        (run \<lparr>registry = nullish_Env (IgnoreBool True), process_env = example_penv, console = []\<rparr>
           [Lookup ''PORT'' (Some True), SetVar ''HOST'' ''localhost'', DeleteVar ''CLIENT_URL''])
        ''PORT'' (Some True)) = Inr (JBoolean False)"
proof -
  let ?w = "\<lparr>registry = nullish_Env (IgnoreBool True), process_env = example_penv, console = []\<rparr>"
  let ?evs = "[Lookup ''PORT'' (Some True), SetVar ''HOST'' ''localhost'', DeleteVar ''CLIENT_URL'']"
  have h: "''PORT'' \<notin> set (concat (map writes ?evs))"
    by simp
  have v: "fst (get_call ?w ''PORT'' (Some True)) = Inr (JBoolean False)"
    by (simp add: get_call_def resolve_def prop_read_def Object_prototype_def nullish_Env_def
        example_penv_def)
  have "''PORT'' \<notin> set (concat (map writes ?evs)) \<longrightarrow>
          fst (get_call (run ?w ?evs) ''PORT'' (Some True)) = fst (get_call ?w ''PORT'' (Some True))"
    using get_call_idempotent [of ?w "''PORT''" "Some True" 0 ?evs]
    by (elim conjE) assumption
  with h have e: "fst (get_call (run ?w ?evs) ''PORT'' (Some True))
                    = fst (get_call ?w ''PORT'' (Some True))"
    by (rule mp [rotated])
  from e v have "fst (get_call (run ?w ?evs) ''PORT'' (Some True)) = Inr (JBoolean False)"
    by (rule trans)
  with h v show ?thesis
    by (intro conjI)
qed

section \<open>The deprecated wrapper\<close>

text \<open>
  C9. Constructing an \<open>EnvUtility\<close> and reading its field \<open>env\<close> gives what \<open>CreateEnv\<close>
  gives for the same arguments: the same thrown error or the same registry (hence the
  same known keys and the same results of \<open>get\<close>), the same warnings, and the same
  process environment afterwards.
\<close>

theorem EnvUtility_new_is_CreateEnv:
  "map_prod (map_prod (map_sum id env) id) id (EnvUtility_new api args penv)
     = CreateEnv api args penv"
  by (simp add: EnvUtility_new_def split: prod.splits sum.splits)

end
